theory Spec2Isabelle
  imports Main
begin

section \<open>Data model: the relational store\<close>

text \<open>
  The server keeps its state in MySQL tables reached through one connection pool. Each
  table is a list of rows; a nullable column is an \<open>option\<close> (\<open>None\<close> is SQL NULL).
  Employee identifiers, roles and names are strings, company ids are numbers.
  SQL string equality is taken as equality of the strings. \<open>is_filled\<close> is a nullable
  boolean column: the code only ever writes 0 and 1 to it and reads it through
  \<open>COALESCE(is_filled, 0)\<close>.
\<close>

record company =
  c_company_id :: nat
  c_company_name :: string

record employee =
  e_employeesID :: string
  e_name :: "string option"
  e_role :: string
  e_company_id :: "nat option"
  e_is_filled :: "bool option"

record response_row =
  rs_employeesID :: string
  rs_form_id :: string
  rs_form_question_id :: nat
  rs_answer_text :: "string option"
  rs_answer_choice :: "string option"

record form_question =
  fq_form_question_id :: nat
  fq_master_question_id :: nat
  fq_question_text :: string

record master_question =
  mq_master_question_id :: nat
  mq_question_number :: nat

record langchain_row =
  ls_employeesID :: string
  ls_created_at :: nat
  ls_summary :: string

record company_report =
  cr_company_id :: nat
  cr_created_at :: nat
  cr_is_filled :: "bool option"
  cr_summary :: string

record db =
  companies :: "company list"
  employees :: "employee list"
  Responses_Sentiment :: "response_row list"
  FormQuestions_Sentiment :: "form_question list"
  MasterQuestions_Sentiment :: "master_question list"
  responses_langchain_sentiment :: "langchain_row list"
  company_reports_sentiment :: "company_report list"

text \<open>
  An HTTP response is its status code and its JSON body. The message strings are the
  ones the handlers send.
\<close>

datatype body =
    Msg string
  | Counts nat nat
  | NotAllSubmitted nat nat
  | CompanyReport "nat option" "string option" company_report
  | AdminReport company_report
  | IsFilled bool
  | HasReport langchain_row "string option"
  | NoReport bool "string option"
  | Cleared nat nat
  | NoEmployeesToReset nat nat nat
  | ResetDone nat nat nat nat nat
  | RowFailed nat
  | Saved
  | AnalysisCompleted "nat option" "string option"

type_synonym response = "nat \<times> body"

text \<open>The caller as the token middleware leaves it in \<open>req.employee\<close>.\<close>

record caller =
  caller_employeesID :: string
  caller_role :: string

section \<open>SQL helpers\<close>

text \<open>\<open>column = ?\<close> on a nullable column: NULL on either side matches no row.\<close>

fun sql_eq :: "nat option \<Rightarrow> nat option \<Rightarrow> bool" where
  "sql_eq (Some a) (Some b) = (a = b)"
| "sql_eq _ _ = False"

text \<open>\<open>COALESCE(is_filled, 0)\<close> read with JavaScript truthiness, or compared with 1.\<close>

fun coalesce_filled :: "bool option \<Rightarrow> bool" where
  "coalesce_filled None = False"
| "coalesce_filled (Some b) = b"

text \<open>\<open>SELECT ... WHERE employeesID = ? LIMIT 1\<close>: the first matching row, if any.\<close>

definition employee_row :: "db \<Rightarrow> string \<Rightarrow> employee option" where
  "employee_row d eid = find (\<lambda>e. e_employeesID e = eid) (employees d)"

text \<open>\<open>SELECT company_name FROM companies WHERE company_id = ?\<close> as a left join does it.\<close>

definition company_name_of :: "db \<Rightarrow> nat option \<Rightarrow> string option" where
  "company_name_of d cid =
     (case find (\<lambda>c. sql_eq (Some (c_company_id c)) cid) (companies d) of
        None \<Rightarrow> None
      | Some c \<Rightarrow> Some (c_company_name c))"

text \<open>
  \<open>ORDER BY created_at DESC LIMIT 1\<close>: a row with the greatest timestamp; among equal
  timestamps the earliest stored row is taken.
\<close>

fun latest :: "('a \<Rightarrow> nat) \<Rightarrow> 'a list \<Rightarrow> 'a option" where
  "latest f [] = None"
| "latest f (x # xs) =
     (case latest f xs of
        None \<Rightarrow> Some x
      | Some y \<Rightarrow> if f x < f y then Some y else Some x)"

text \<open>
  The route parameter \<open>:company\<close>: \<open>Number(companyParam)\<close> when that is a number, else a
  lookup of the company by name.
\<close>

datatype company_param = Numeric nat | Named string

definition resolve_company :: "db \<Rightarrow> company_param \<Rightarrow> nat option" where
  "resolve_company d p =
     (case p of
        Numeric n \<Rightarrow> Some n
      | Named s \<Rightarrow>
          (case find (\<lambda>c. c_company_name c = s) (companies d) of
             None \<Rightarrow> None
           | Some c \<Rightarrow> Some (c_company_id c)))"

section \<open>Completion detector\<close>

text \<open>
  Every call site runs the same query,
  \<open>SELECT COALESCE(is_filled,0) AS is_filled FROM employees WHERE company_id = ? AND role != 'HR'\<close>,
  and counts the rows and the filled rows.
\<close>

definition non_hr_rows :: "db \<Rightarrow> nat option \<Rightarrow> employee list" where
  "non_hr_rows d cid =
     filter (\<lambda>e. sql_eq (e_company_id e) cid \<and> e_role e \<noteq> ''HR'') (employees d)"

definition total_of :: "db \<Rightarrow> nat option \<Rightarrow> nat" where
  "total_of d cid = length (non_hr_rows d cid)"

definition filled_of :: "db \<Rightarrow> nat option \<Rightarrow> nat" where
  "filled_of d cid =
     length (filter (\<lambda>e. coalesce_filled (e_is_filled e)) (non_hr_rows d cid))"

text \<open>
  The completion predicate in the spec's words: the company has at least one non-HR
  employee and every non-HR employee is filled.
\<close>

definition isComplete :: "db \<Rightarrow> nat option \<Rightarrow> bool" where
  "isComplete d cid =
     (non_hr_rows d cid \<noteq> [] \<and>
      list_all (\<lambda>e. coalesce_filled (e_is_filled e)) (non_hr_rows d cid))"

text \<open>The test of the auto-trigger after a submission (POST /api/sentiment/response).\<close>

definition auto_trigger_ready :: "db \<Rightarrow> nat option \<Rightarrow> bool" where
  "auto_trigger_ready d cid =
     (let totalEmployees = total_of d cid; filledEmployees = filled_of d cid
      in 0 < totalEmployees \<and> filledEmployees = totalEmployees)"

section \<open>Company report endpoints\<close>

text \<open>
  GET /api/company/report (HR). The caller's company is read from the caller's own
  employee row. Storage failures (a 500 answer) are left out of the read-only handlers.
\<close>

definition get_company_report :: "db \<Rightarrow> caller \<Rightarrow> response" where
  "get_company_report d hrUser =
     (case employee_row d (caller_employeesID hrUser) of
        None \<Rightarrow> (404, Msg ''HR user not found'')
      | Some hrRow \<Rightarrow>
          (let companyId = e_company_id hrRow;
               companyName = company_name_of d companyId;
               total = total_of d companyId;
               filled = filled_of d companyId
           in if total = 0 then (404, Msg ''No employees to report'')
              else if filled \<noteq> total then (409, NotAllSubmitted total filled)
              else
                (case latest cr_created_at
                        (filter (\<lambda>r. sql_eq (Some (cr_company_id r)) companyId \<and>
                                      coalesce_filled (cr_is_filled r))
                           (company_reports_sentiment d)) of
                   Some r \<Rightarrow> (200, CompanyReport companyId companyName r)
                 | None \<Rightarrow> (404, Msg ''Company report not ready''))))"

text \<open>GET /api/company/report/status (HR): the counts only.\<close>

definition get_company_report_status :: "db \<Rightarrow> caller \<Rightarrow> response" where
  "get_company_report_status d hrUser =
     (case employee_row d (caller_employeesID hrUser) of
        None \<Rightarrow> (404, Msg ''HR user not found'')
      | Some hrRow \<Rightarrow>
          (200, Counts (total_of d (e_company_id hrRow)) (filled_of d (e_company_id hrRow))))"

text \<open>GET /api/admin/company/:company/report/status.\<close>

definition admin_company_report_status :: "db \<Rightarrow> company_param \<Rightarrow> response" where
  "admin_company_report_status d companyParam =
     (case resolve_company d companyParam of
        None \<Rightarrow> (404, Msg ''Company not found'')
      | Some companyId \<Rightarrow>
          (200, Counts (total_of d (Some companyId)) (filled_of d (Some companyId))))"

text \<open>GET /api/admin/company/:company/report.\<close>

definition admin_company_report :: "db \<Rightarrow> company_param \<Rightarrow> response" where
  "admin_company_report d companyParam =
     (case resolve_company d companyParam of
        None \<Rightarrow> (404, Msg ''Company not found'')
      | Some companyId \<Rightarrow>
          (let total = total_of d (Some companyId);
               filled = filled_of d (Some companyId)
           in if filled \<noteq> total then (409, Msg ''Not ready'')
              else
                (case latest cr_created_at
                        (filter (\<lambda>r. cr_company_id r = companyId)
                           (company_reports_sentiment d)) of
                   None \<Rightarrow> (404, Msg ''No report'')
                 | Some r \<Rightarrow> (200, AdminReport r))))"

section \<open>Access-guarded employee endpoints\<close>

text \<open>The HR middleware lets the roles HR and Admin through.\<close>

definition authenticateHR :: "caller \<Rightarrow> bool" where
  "authenticateHR c = (caller_role c = ''HR'' \<or> caller_role c = ''Admin'')"

text \<open>\<open>String.prototype.trim\<close> on the ASCII white space.\<close>

definition is_space :: "char \<Rightarrow> bool" where
  "is_space ch = (ch = CHR '' '' \<or> ch = CHR 0x09 \<or> ch = CHR 0x0A \<or> ch = CHR 0x0B \<or>
                  ch = CHR 0x0C \<or> ch = CHR 0x0D)"

definition js_trim :: "string \<Rightarrow> string" where
  "js_trim s = rev (dropWhile is_space (rev (dropWhile is_space s)))"

text \<open>
  GET /api/employees/:employeesID/status, behind the plain token middleware. The source
  comments it: access allowed for the employee themself, HRs, and Admins.
\<close>

definition get_employee_status :: "db \<Rightarrow> caller \<Rightarrow> string \<Rightarrow> response" where
  "get_employee_status d requester param =
     (let targetId = js_trim param
      in if targetId = [] then (400, Msg ''employeesID required'')
         else
           (let requesterId = js_trim (caller_employeesID requester);
                requesterRole = js_trim (caller_role requester)
            in if requesterId \<noteq> targetId \<and> requesterRole \<noteq> ''HR'' \<and> requesterRole \<noteq> ''Admin''
               then (403, Msg ''Access denied'')
               else
                 (case employee_row d targetId of
                    None \<Rightarrow> (404, Msg ''Employee not found'')
                  | Some row \<Rightarrow> (200, IsFilled (coalesce_filled (e_is_filled row))))))"

text \<open>GET /api/reports/sentiment/:employeeId, the handler behind the HR middleware.\<close>

definition get_sentiment_report :: "db \<Rightarrow> caller \<Rightarrow> string \<Rightarrow> response" where
  "get_sentiment_report d hrUser employeeId =
     (case employee_row d (caller_employeesID hrUser) of
        None \<Rightarrow> (404, Msg ''HR user not found'')
      | Some hrResult \<Rightarrow>
          (let hrCompanyId = e_company_id hrResult
           in case employee_row d employeeId of
                None \<Rightarrow> (404, Msg ''Employee not found'')
              | Some empResult \<Rightarrow>
                  if e_company_id empResult \<noteq> hrCompanyId
                  then (403, Msg ''Access denied: Employee not in your company'')
                  else
                    (case latest ls_created_at
                            (filter (\<lambda>r. ls_employeesID r = employeeId)
                               (responses_langchain_sentiment d)) of
                       None \<Rightarrow>
                         (200, NoReport (coalesce_filled (e_is_filled empResult))
                                 (e_name empResult))
                     | Some r \<Rightarrow> (200, HasReport r (e_name empResult)))))"

definition reports_sentiment_route :: "db \<Rightarrow> caller \<Rightarrow> string \<Rightarrow> response" where
  "reports_sentiment_route d c employeeId =
     (if authenticateHR c then get_sentiment_report d c employeeId
      else (403, Msg ''HR access required''))"

section \<open>Statements that can fail\<close>

text \<open>
  A write handler is run against an oracle that says which of its statements the
  database rejects (the awaited promise rejects and the handler's \<open>catch\<close> runs).
\<close>

datatype statement =
    ResolveCompany
  | BeginTransaction
  | SelectEmployees
  | DeleteResponses
  | DeleteLangchain
  | DeleteCompanyReport
  | UpdateFilled
  | SelectCompany
  | Commit

section \<open>Reset of one employee\<close>

text \<open>
  DELETE /api/hr/employee/:employeesID/responses. Every statement goes through the pool
  on its own, so each is committed as soon as it succeeds. \<open>empRow.company_id\<close> is tested
  for truthiness: NULL and 0 skip the deletion of the company report.
\<close>

definition delete_responses_of :: "string list \<Rightarrow> db \<Rightarrow> db" where
  "delete_responses_of ids d =
     d\<lparr>Responses_Sentiment :=
          filter (\<lambda>r. rs_employeesID r \<notin> set ids) (Responses_Sentiment d)\<rparr>"

definition delete_langchain_of :: "string list \<Rightarrow> db \<Rightarrow> db" where
  "delete_langchain_of ids d =
     d\<lparr>responses_langchain_sentiment :=
          filter (\<lambda>r. ls_employeesID r \<notin> set ids) (responses_langchain_sentiment d)\<rparr>"

definition delete_company_reports :: "nat \<Rightarrow> db \<Rightarrow> db" where
  "delete_company_reports cid d =
     d\<lparr>company_reports_sentiment :=
          filter (\<lambda>r. cr_company_id r \<noteq> cid) (company_reports_sentiment d)\<rparr>"

definition set_filled :: "bool \<Rightarrow> string list \<Rightarrow> db \<Rightarrow> db" where
  "set_filled b ids d =
     d\<lparr>employees :=
          map (\<lambda>e. if e_employeesID e \<in> set ids then e\<lparr>e_is_filled := Some b\<rparr> else e)
            (employees d)\<rparr>"


section \<open>Company-wide reset\<close>

text \<open>
  POST /api/admin/company/:company/reset works on one pooled connection and wraps its
  statements in a transaction. A connection holds the committed store and, inside a
  transaction, the working copy the transaction sees; commit publishes the working
  copy and rollback drops it.
\<close>

record connection =
  committed :: db
  pending :: "db option"

definition getConnection :: "db \<Rightarrow> connection" where
  "getConnection d = \<lparr>committed = d, pending = None\<rparr>"

definition beginTransaction :: "connection \<Rightarrow> connection" where
  "beginTransaction c = c\<lparr>pending := Some (committed c)\<rparr>"

definition conn_view :: "connection \<Rightarrow> db" where
  "conn_view c = (case pending c of None \<Rightarrow> committed c | Some w \<Rightarrow> w)"

definition conn_execute :: "(db \<Rightarrow> db) \<Rightarrow> connection \<Rightarrow> connection" where
  "conn_execute f c =
     (case pending c of
        None \<Rightarrow> c\<lparr>committed := f (committed c)\<rparr>
      | Some w \<Rightarrow> c\<lparr>pending := Some (f w)\<rparr>)"

definition commit :: "connection \<Rightarrow> connection" where
  "commit c =
     (case pending c of None \<Rightarrow> c | Some w \<Rightarrow> \<lparr>committed = w, pending = None\<rparr>)"

definition rollback :: "connection \<Rightarrow> connection" where
  "rollback c = c\<lparr>pending := None\<rparr>"

text \<open>
  The employee set the reset selects: the non-HR rows of the company, and with
  \<open>onlyFilled\<close> only those with \<open>COALESCE(is_filled, 0) = 1\<close>.
\<close>

definition reset_selection :: "db \<Rightarrow> nat \<Rightarrow> bool \<Rightarrow> employee list" where
  "reset_selection d companyId onlyFilled =
     filter (\<lambda>e. sql_eq (e_company_id e) (Some companyId) \<and> e_role e \<noteq> ''HR'' \<and>
                 (if onlyFilled then coalesce_filled (e_is_filled e) else True))
       (employees d)"

text \<open>
  The body of the \<open>try\<close> block: \<open>Inl\<close> is a thrown error, with the connection as it
  stands; \<open>Inr\<close> is a response that was sent.
\<close>

definition reset_try ::
  "(statement \<Rightarrow> bool) \<Rightarrow> company_param \<Rightarrow> bool \<Rightarrow> connection \<Rightarrow>
     connection + (response \<times> connection)" where
  "reset_try fails companyParam onlyFilled c0 =
     (if (case companyParam of Numeric n \<Rightarrow> False | Named s \<Rightarrow> fails ResolveCompany)
      then Inl c0
      else
        (case resolve_company (conn_view c0) companyParam of
           None \<Rightarrow> Inr ((404, Msg ''Company not found''), c0)
         | Some companyId \<Rightarrow>
             if fails BeginTransaction then Inl c0
             else
               (let c1 = beginTransaction c0
                in if fails SelectEmployees then Inl c1
                   else
                     (let selected = reset_selection (conn_view c1) companyId onlyFilled
                      in if selected = []
                         then Inr ((200, NoEmployeesToReset 0 0 0), rollback c1)
                         else
                           (let employeeIds = map e_employeesID selected
                            in if fails DeleteResponses then Inl c1
                               else
                                 (let respResult =
                                        length (filter (\<lambda>r. rs_employeesID r \<in> set employeeIds)
                                                  (Responses_Sentiment (conn_view c1)));
                                      c2 = conn_execute (delete_responses_of employeeIds) c1
                                  in if fails DeleteLangchain then Inl c2
                                     else
                                       (let langchainResult =
                                              length (filter (\<lambda>r. ls_employeesID r \<in> set employeeIds)
                                                        (responses_langchain_sentiment (conn_view c2)));
                                            c3 = conn_execute (delete_langchain_of employeeIds) c2
                                        in if fails DeleteCompanyReport then Inl c3
                                           else
                                             (let companyReportResult =
                                                    length (filter (\<lambda>r. cr_company_id r = companyId)
                                                              (company_reports_sentiment (conn_view c3)));
                                                  c4 = conn_execute (delete_company_reports companyId) c3
                                              in if fails UpdateFilled then Inl c4
                                                 else
                                                   (let updateResult =
                                                          length (filter (\<lambda>e. e_employeesID e \<in> set employeeIds)
                                                                    (employees (conn_view c4)));
                                                        c5 = conn_execute (set_filled False employeeIds) c4
                                                    in if fails Commit then Inl c5
                                                       else
                                                         Inr ((200, ResetDone (length selected) respResult
                                                                     langchainResult companyReportResult
                                                                     updateResult),
                                                              commit c5))))))))))"

text \<open>
  The handler: a thrown error is caught, the transaction is rolled back and 500 is sent.
  The result is the response and the committed store the handler leaves behind.
\<close>

definition reset :: "(statement \<Rightarrow> bool) \<Rightarrow> db \<Rightarrow> company_param \<Rightarrow> bool \<Rightarrow> response \<times> db" where
  "reset fails d companyParam onlyFilled =
     (case reset_try fails companyParam onlyFilled (getConnection d) of
        Inl c \<Rightarrow> ((500, Msg ''Server error resetting company data''), committed (rollback c))
      | Inr (resp, c) \<Rightarrow> (resp, committed c))"

section \<open>Analysis orchestrator\<close>

text \<open>
  The external analysis service and the store are seen through an environment: what the
  service answers to an individual request and to a company request (\<open>None\<close> and \<open>Inr\<close>
  are a 2xx answer, an error is what axios throws), and which of the orchestrator's
  queries the database rejects.
\<close>

datatype analysis_error = DatabaseError | ECONNREFUSED | ErrorResponse string | NoResponse

record individual_payload =
  p_employeeId :: string
  p_company :: "string option"
  p_answers :: "(nat \<times> string \<times> string) list"

record orch_env =
  analyze :: "individual_payload \<Rightarrow> analysis_error option"
  analyze_company :: "nat option \<Rightarrow> analysis_error + string"
  select_employees_fails :: bool
  employee_queries_fail :: "string \<Rightarrow> bool"

text \<open>
  What the server does is recorded as a trace: the readiness query of a caller with its
  counts, each request sent to the analysis service, and each log line that closes the
  work on one employee.
\<close>

datatype event =
    ReadinessCheck "nat option" nat nat
  | IndividualCall individual_payload
  | ReportGenerated string
  | NoResponsesFound string
  | EmployeeFailed string
  | CompanyCall "nat option"

text \<open>JavaScript \<open>a || b\<close> on nullable strings: NULL and the empty string are falsy.\<close>

fun truthy :: "string option \<Rightarrow> bool" where
  "truthy None = False"
| "truthy (Some s) = (s \<noteq> [])"

definition js_or :: "string option \<Rightarrow> string option \<Rightarrow> string option" where
  "js_or a b = (if truthy a then a else b)"

text \<open>
  The employee's answers joined with their questions, ordered by question number (inner
  joins: an answer whose question row is missing is not returned).
\<close>

definition fetch_responses :: "db \<Rightarrow> string \<Rightarrow> (nat \<times> string \<times> response_row) list" where
  "fetch_responses d employeeId =
     sort_key fst
       (concat (map (\<lambda>rs.
          concat (map (\<lambda>fq.
            map (\<lambda>mq. (mq_question_number mq, fq_question_text fq, rs))
              (filter (\<lambda>mq. mq_master_question_id mq = fq_master_question_id fq)
                 (MasterQuestions_Sentiment d)))
            (filter (\<lambda>fq. fq_form_question_id fq = rs_form_question_id rs)
               (FormQuestions_Sentiment d))))
          (filter (\<lambda>rs. rs_employeesID rs = employeeId) (Responses_Sentiment d))))"

text \<open>\<open>obj[key] = value\<close> on an object kept in insertion order; the key \<open>q<N>\<close> is \<open>N\<close>.\<close>

fun obj_set :: "'k \<Rightarrow> 'v \<Rightarrow> ('k \<times> 'v) list \<Rightarrow> ('k \<times> 'v) list" where
  "obj_set k v [] = [(k, v)]"
| "obj_set k v ((k', v') # kvs) =
     (if k = k' then (k, v) # kvs else (k', v') # obj_set k v kvs)"

definition format_answers ::
  "(nat \<times> string \<times> response_row) list \<Rightarrow> (nat \<times> string \<times> string) list" where
  "format_answers responses =
     foldl (\<lambda>formattedAnswers (qNum, question_text, rs).
              obj_set qNum
                (question_text,
                 (case js_or (js_or (rs_answer_text rs) (rs_answer_choice rs)) (Some []) of
                    None \<Rightarrow> []
                  | Some answer \<Rightarrow> answer))
                formattedAnswers)
       [] responses"

text \<open>One turn of the per-employee loop, with its own \<open>try\<close>/\<open>catch\<close>.\<close>

definition individual_report :: "orch_env \<Rightarrow> db \<Rightarrow> string \<Rightarrow> event list" where
  "individual_report env d employeeId =
     (if employee_queries_fail env employeeId then [EmployeeFailed employeeId]
      else
        (let companyName =
               (case employee_row d employeeId of
                  None \<Rightarrow> None
                | Some e \<Rightarrow> company_name_of d (e_company_id e));
             responses = fetch_responses d employeeId
         in if responses \<noteq> []
            then
              (let individualPayload =
                     \<lparr>p_employeeId = employeeId, p_company = companyName,
                      p_answers = format_answers responses\<rparr>
               in case analyze env individualPayload of
                    None \<Rightarrow> [IndividualCall individualPayload, ReportGenerated employeeId]
                  | Some empErr \<Rightarrow> [IndividualCall individualPayload, EmployeeFailed employeeId])
            else [NoResponsesFound employeeId]))"

fun phase1 :: "orch_env \<Rightarrow> db \<Rightarrow> string list \<Rightarrow> event list" where
  "phase1 env d [] = []"
| "phase1 env d (employeeId # rest) = individual_report env d employeeId @ phase1 env d rest"

text \<open>The employees of phase 1: non-HR rows of the company with \<open>COALESCE(is_filled, 0) = 1\<close>.\<close>

definition eligible_employees :: "db \<Rightarrow> nat option \<Rightarrow> string list" where
  "eligible_employees d companyId =
     map e_employeesID
       (filter (\<lambda>e. sql_eq (e_company_id e) companyId \<and> e_role e \<noteq> ''HR'' \<and>
                   coalesce_filled (e_is_filled e))
          (employees d))"

text \<open>
  \<open>triggerCompanyAnalysis(companyId)\<close>: the trace of the run and what it returns (\<open>Inl\<close> is
  the error it rethrows). It writes nothing to the store itself.
\<close>

definition triggerCompanyAnalysis ::
  "orch_env \<Rightarrow> db \<Rightarrow> nat option \<Rightarrow> event list \<times> (analysis_error + string)" where
  "triggerCompanyAnalysis env d companyId =
     (if select_employees_fails env then ([], Inl DatabaseError)
      else
        (let employees = eligible_employees d companyId;
             step1 = phase1 env d employees
         in (step1 @ [CompanyCall companyId], analyze_company env companyId)))"

text \<open>POST /api/company/analyze (HR): the response and the trace.\<close>

definition company_analyze :: "orch_env \<Rightarrow> db \<Rightarrow> caller \<Rightarrow> response \<times> event list" where
  "company_analyze env d hrUser =
     (case employee_row d (caller_employeesID hrUser) of
        None \<Rightarrow> ((404, Msg ''HR user company not found''), [])
      | Some hrRow \<Rightarrow>
          (let companyId = e_company_id hrRow;
               companyName = company_name_of d companyId;
               total = total_of d companyId;
               filled = filled_of d companyId;
               checked = [ReadinessCheck companyId total filled]
           in if total = 0 then ((409, Msg ''No employees in company to analyze''), checked)
              else if filled \<noteq> total then ((409, NotAllSubmitted total filled), checked)
              else
                (case triggerCompanyAnalysis env d companyId of
                   (log, Inr data) \<Rightarrow>
                     ((200, AnalysisCompleted companyId companyName), checked @ log)
                 | (log, Inl ECONNREFUSED) \<Rightarrow>
                     ((503, Msg ''AI analysis service is unavailable''), checked @ log)
                 | (log, Inl (ErrorResponse detail)) \<Rightarrow>
                     ((500, Msg ''Company analysis failed''), checked @ log)
                 | (log, Inl other) \<Rightarrow>
                     ((500, Msg ''Failed to connect to analysis service''), checked @ log))))"

section \<open>Survey submission\<close>

record answer =
  a_form_question_id :: nat
  a_answer_text :: "string option"
  a_answer_choice :: "string option"

text \<open>
  The request body. An identifier that is absent is \<open>None\<close>; \<open>answers\<close> is \<open>None\<close> when
  the field is not an array.
\<close>

record submit_request =
  employee_id :: "string option"
  employeeId :: "string option"
  form_id :: "string option"
  formId :: "string option"
  answers :: "answer list option"

text \<open>
  What the database does to a submission: whether the responses table has the
  \<open>employeesID\<close> column, which of the inserts (by position in \<open>answers\<close>) it rejects,
  whether the update of \<open>is_filled\<close> is rejected, and whether the queries of the
  completeness check after the submission are rejected.
\<close>

record submit_env =
  has_employeesID_column :: bool
  insert_fails :: "nat \<Rightarrow> bool"
  update_filled_fails :: bool
  auto_check_fails :: bool

definition null_if_falsy :: "string option \<Rightarrow> string option" where
  "null_if_falsy a = (if truthy a then a else None)"

definition response_of :: "string \<Rightarrow> string \<Rightarrow> answer \<Rightarrow> response_row" where
  "response_of resolvedEmployee resolvedFormId a =
     \<lparr>rs_employeesID = resolvedEmployee, rs_form_id = resolvedFormId,
      rs_form_question_id = a_form_question_id a,
      rs_answer_text = null_if_falsy (a_answer_text a),
      rs_answer_choice = null_if_falsy (a_answer_choice a)\<rparr>"

text \<open>
  \<open>answers.map(a => pool.execute(INSERT ...))\<close> issues every insert when the promises
  are built, each on the pool and so committed by itself: the rows that reach the table
  are those whose own insert is not rejected (kept here in the order of \<open>answers\<close>).
\<close>

fun insertPromises :: "(nat \<Rightarrow> bool) \<Rightarrow> nat \<Rightarrow> response_row list \<Rightarrow> response_row list" where
  "insertPromises rejects i [] = []"
| "insertPromises rejects i (r # rs) =
     (if rejects i then insertPromises rejects (Suc i) rs
      else r # insertPromises rejects (Suc i) rs)"

text \<open>
  The loop that awaits the promises one by one: the position of the first rejected
  insert, at which the handler answers 500 and returns.
\<close>

fun await_inserts :: "(nat \<Rightarrow> bool) \<Rightarrow> nat \<Rightarrow> 'a list \<Rightarrow> nat option" where
  "await_inserts rejects i [] = None"
| "await_inserts rejects i (p # ps) =
     (if rejects i then Some i else await_inserts rejects (Suc i) ps)"

text \<open>
  The completeness check after a saved submission and the analysis it starts without
  waiting for it: the trace of that background work.
\<close>

definition auto_trigger :: "submit_env \<Rightarrow> orch_env \<Rightarrow> db \<Rightarrow> string \<Rightarrow> event list" where
  "auto_trigger senv oenv d resolvedEmployee =
     (if auto_check_fails senv then []
      else
        (case employee_row d resolvedEmployee of
           None \<Rightarrow> []
         | Some empCompany \<Rightarrow>
             (let companyId = e_company_id empCompany;
                  totalEmployees = total_of d companyId;
                  filledEmployees = filled_of d companyId;
                  checked = [ReadinessCheck companyId totalEmployees filledEmployees]
              in if 0 < totalEmployees \<and> filledEmployees = totalEmployees
                 then checked @ fst (triggerCompanyAnalysis oenv d companyId)
                 else checked)))"

text \<open>POST /api/sentiment/response: the response, the store afterwards, the trace.\<close>

definition submit ::
  "submit_env \<Rightarrow> orch_env \<Rightarrow> db \<Rightarrow> submit_request \<Rightarrow> response \<times> db \<times> event list" where
  "submit senv oenv d req =
     (let resolvedFormId = js_or (form_id req) (formId req);
          resolvedEmployee = js_or (employee_id req) (employeeId req);
          invalid = ((400, Msg ''employee identifier, form_id and answers[] required''), d, [])
      in case resolvedEmployee of
           None \<Rightarrow> invalid
         | Some emp \<Rightarrow>
             (case resolvedFormId of
                None \<Rightarrow> invalid
              | Some form \<Rightarrow>
                  (case answers req of
                     None \<Rightarrow> invalid
                   | Some ans \<Rightarrow>
                       if emp = [] \<or> form = [] then invalid
                       else if has_employeesID_column senv = False
                       then ((500, Msg ''Database schema missing employeesID column''), d, [])
                       else
                         (let rows = map (response_of emp form) ans;
                              d1 = d\<lparr>Responses_Sentiment :=
                                       Responses_Sentiment d @
                                       insertPromises (insert_fails senv) 0 rows\<rparr>
                          in case await_inserts (insert_fails senv) 0 rows of
                               Some i \<Rightarrow> ((500, RowFailed i), d1, [])
                             | None \<Rightarrow>
                                 (let d2 = (if update_filled_fails senv then d1
                                            else set_filled True [emp] d1)
                                  in ((200, Saved), d2, auto_trigger senv oenv d2 emp))))))"

section \<open>Reference definitions and example stores\<close>


text \<open>What a reset that goes through leaves behind, in the claim's words.\<close>

definition reset_effect :: "db \<Rightarrow> nat \<Rightarrow> string list \<Rightarrow> db" where
  "reset_effect d companyId ids =
     d\<lparr>employees :=
          map (\<lambda>e. if e_employeesID e \<in> set ids then e\<lparr>e_is_filled := Some False\<rparr> else e)
            (employees d),
       Responses_Sentiment :=
          filter (\<lambda>r. rs_employeesID r \<notin> set ids) (Responses_Sentiment d),
       responses_langchain_sentiment :=
          filter (\<lambda>r. ls_employeesID r \<notin> set ids) (responses_langchain_sentiment d),
       company_reports_sentiment :=
          filter (\<lambda>r. cr_company_id r \<noteq> companyId) (company_reports_sentiment d)\<rparr>"

definition reset_rejected :: "(statement \<Rightarrow> bool) \<Rightarrow> company_param \<Rightarrow> bool" where
  "reset_rejected fails p =
     ((case p of Numeric n \<Rightarrow> False | Named s \<Rightarrow> fails ResolveCompany) \<or>
      fails BeginTransaction \<or> fails SelectEmployees \<or> fails DeleteResponses \<or>
      fails DeleteLangchain \<or> fails DeleteCompanyReport \<or> fails UpdateFilled \<or>
      fails Commit)"

definition reset_counts :: "db \<Rightarrow> nat \<Rightarrow> string list \<Rightarrow> body" where
  "reset_counts d companyId ids =
     ResetDone
       (length ids)
       (length (filter (\<lambda>r. rs_employeesID r \<in> set ids) (Responses_Sentiment d)))
       (length (filter (\<lambda>r. ls_employeesID r \<in> set ids) (responses_langchain_sentiment d)))
       (length (filter (\<lambda>r. cr_company_id r = companyId) (company_reports_sentiment d)))
       (length (filter (\<lambda>e. e_employeesID e \<in> set ids) (employees d)))"


text \<open>The employee whose turn of the per-employee loop a log line closes.\<close>

fun closes :: "event \<Rightarrow> string option" where
  "closes (ReportGenerated e) = Some e"
| "closes (NoResponsesFound e) = Some e"
| "closes (EmployeeFailed e) = Some e"
| "closes ev = None"

fun attempted :: "event list \<Rightarrow> string list" where
  "attempted [] = []"
| "attempted (ev # evs) =
     (case closes ev of None \<Rightarrow> attempted evs | Some e \<Rightarrow> e # attempted evs)"

text \<open>
  The work on an employee fails when its queries are rejected, or when the employee has
  answers and the analysis service does not accept the request built from them.
\<close>

definition employee_fails :: "orch_env \<Rightarrow> db \<Rightarrow> string \<Rightarrow> bool" where
  "employee_fails env d eid =
     (employee_queries_fail env eid \<or>
      (fetch_responses d eid \<noteq> [] \<and>
       analyze env
         \<lparr>p_employeeId = eid,
          p_company = (case employee_row d eid of
                         None \<Rightarrow> None
                       | Some e \<Rightarrow> company_name_of d (e_company_id e)),
          p_answers = format_answers (fetch_responses d eid)\<rparr> \<noteq> None))"

text \<open>
  The request built for an employee, whether a request is due for the employee (the
  queries went through and there are answers), and the log line that closes the
  employee's turn. Each depends on that employee alone.
\<close>

definition payload_of :: "db \<Rightarrow> string \<Rightarrow> individual_payload" where
  "payload_of d eid =
     \<lparr>p_employeeId = eid,
      p_company = (case employee_row d eid of
                     None \<Rightarrow> None
                   | Some e \<Rightarrow> company_name_of d (e_company_id e)),
      p_answers = format_answers (fetch_responses d eid)\<rparr>"

definition request_due :: "orch_env \<Rightarrow> db \<Rightarrow> string \<Rightarrow> bool" where
  "request_due env d eid =
     (employee_queries_fail env eid = False \<and> fetch_responses d eid \<noteq> [])"

definition outcome :: "orch_env \<Rightarrow> db \<Rightarrow> string \<Rightarrow> event" where
  "outcome env d eid =
     (if employee_queries_fail env eid then EmployeeFailed eid
      else if fetch_responses d eid = [] then NoResponsesFound eid
      else (case analyze env (payload_of d eid) of
              None \<Rightarrow> ReportGenerated eid
            | Some err \<Rightarrow> EmployeeFailed eid))"

text \<open>The requests sent to the analysis service and the closing log lines of a trace.\<close>

fun requests :: "event list \<Rightarrow> individual_payload list" where
  "requests [] = []"
| "requests (IndividualCall p # evs) = p # requests evs"
| "requests (ev # evs) = requests evs"

definition closing :: "event list \<Rightarrow> event list" where
  "closing log = filter (\<lambda>ev. closes ev \<noteq> None) log"

fun is_company_call :: "event \<Rightarrow> bool" where
  "is_company_call (CompanyCall c) = True"
| "is_company_call ev = False"

fun is_readiness_check :: "event \<Rightarrow> bool" where
  "is_readiness_check (ReadinessCheck c t f) = True"
| "is_readiness_check ev = False"

text \<open>
  A readiness check for company \<open>c\<close> that reported complete, and the property that every
  company-level request in a trace comes right after such a check.
\<close>

fun complete_check :: "event \<Rightarrow> nat option \<Rightarrow> bool" where
  "complete_check (ReadinessCheck c t f) c' = (c = c' \<and> 0 < t \<and> f = t)"
| "complete_check ev c' = False"

fun rechecked_before_phase2 :: "event option \<Rightarrow> event list \<Rightarrow> bool" where
  "rechecked_before_phase2 prev [] = True"
| "rechecked_before_phase2 prev (CompanyCall c # evs) =
     ((case prev of None \<Rightarrow> False | Some p \<Rightarrow> complete_check p c) \<and>
      rechecked_before_phase2 (Some (CompanyCall c)) evs)"
| "rechecked_before_phase2 prev (ev # evs) = rechecked_before_phase2 (Some ev) evs"

text \<open>
  Example stores. \<open>db_hr_only\<close>: a company whose only employee has the role HR, with a
  company report left from an earlier cycle. \<open>db_stale\<close>: a company without employee rows
  and with an old report. \<open>db_mixed\<close>: an HR user and one employee, both filled, with answers
  and reports. \<open>db_unfilled\<close>: one manager who has not submitted, and an old report. \<open>db_team\<close>: an
  HR user and three filled employees, the third without stored answers. \<open>db_two\<close>: an HR
  user of company 1 and an employee of company 2. \<open>db_zero\<close>: one filled employee whose
  company id is 0, and a report row of that company.
\<close>

definition db_hr_only :: db where
  "db_hr_only =
     \<lparr>companies = [\<lparr>c_company_id = 1, c_company_name = ''Acme''\<rparr>],
      employees = [\<lparr>e_employeesID = ''hr1'', e_name = Some ''Hana'', e_role = ''HR'',
                    e_company_id = Some 1, e_is_filled = None\<rparr>],
      Responses_Sentiment = [], FormQuestions_Sentiment = [], MasterQuestions_Sentiment = [],
      responses_langchain_sentiment = [],
      company_reports_sentiment =
        [\<lparr>cr_company_id = 1, cr_created_at = 10, cr_is_filled = Some True,
          cr_summary = ''prior cycle''\<rparr>]\<rparr>"

definition db_stale :: db where
  "db_stale =
     \<lparr>companies = [\<lparr>c_company_id = 2, c_company_name = ''Globex''\<rparr>],
      employees = [],
      Responses_Sentiment = [], FormQuestions_Sentiment = [], MasterQuestions_Sentiment = [],
      responses_langchain_sentiment = [],
      company_reports_sentiment =
        [\<lparr>cr_company_id = 2, cr_created_at = 7, cr_is_filled = Some True,
          cr_summary = ''last year''\<rparr>]\<rparr>"

definition db_mixed :: db where
  "db_mixed =
     \<lparr>companies = [\<lparr>c_company_id = 1, c_company_name = ''Acme''\<rparr>],
      employees =
        [\<lparr>e_employeesID = ''hr1'', e_name = Some ''Hana'', e_role = ''HR'',
          e_company_id = Some 1, e_is_filled = Some True\<rparr>,
         \<lparr>e_employeesID = ''emp1'', e_name = Some ''Eli'', e_role = ''Employee'',
          e_company_id = Some 1, e_is_filled = Some True\<rparr>],
      Responses_Sentiment =
        [\<lparr>rs_employeesID = ''hr1'', rs_form_id = ''1'', rs_form_question_id = 1,
          rs_answer_text = Some ''fine'', rs_answer_choice = None\<rparr>,
         \<lparr>rs_employeesID = ''emp1'', rs_form_id = ''1'', rs_form_question_id = 1,
          rs_answer_text = Some ''good'', rs_answer_choice = None\<rparr>],
      FormQuestions_Sentiment =
        [\<lparr>fq_form_question_id = 1, fq_master_question_id = 1,
          fq_question_text = ''How are you?''\<rparr>],
      MasterQuestions_Sentiment = [\<lparr>mq_master_question_id = 1, mq_question_number = 1\<rparr>],
      responses_langchain_sentiment =
        [\<lparr>ls_employeesID = ''emp1'', ls_created_at = 5, ls_summary = ''positive''\<rparr>],
      company_reports_sentiment =
        [\<lparr>cr_company_id = 1, cr_created_at = 6, cr_is_filled = Some True,
          cr_summary = ''all well''\<rparr>]\<rparr>"

definition db_unfilled :: db where
  "db_unfilled =
     \<lparr>companies = [\<lparr>c_company_id = 3, c_company_name = ''Initech''\<rparr>],
      employees =
        [\<lparr>e_employeesID = ''emp7'', e_name = Some ''Pat'', e_role = ''Manager'',
          e_company_id = Some 3, e_is_filled = Some False\<rparr>],
      Responses_Sentiment = [], FormQuestions_Sentiment = [], MasterQuestions_Sentiment = [],
      responses_langchain_sentiment = [],
      company_reports_sentiment =
        [\<lparr>cr_company_id = 3, cr_created_at = 4, cr_is_filled = Some True,
          cr_summary = ''previous cycle''\<rparr>]\<rparr>"

definition db_team :: db where
  "db_team =
     \<lparr>companies = [\<lparr>c_company_id = 1, c_company_name = ''Acme''\<rparr>],
      employees =
        [\<lparr>e_employeesID = ''hr1'', e_name = Some ''Hana'', e_role = ''HR'',
          e_company_id = Some 1, e_is_filled = None\<rparr>,
         \<lparr>e_employeesID = ''emp1'', e_name = Some ''Eli'', e_role = ''Employee'',
          e_company_id = Some 1, e_is_filled = Some True\<rparr>,
         \<lparr>e_employeesID = ''emp2'', e_name = Some ''Mo'', e_role = ''Manager'',
          e_company_id = Some 1, e_is_filled = Some True\<rparr>,
         \<lparr>e_employeesID = ''emp3'', e_name = None, e_role = ''Employee'',
          e_company_id = Some 1, e_is_filled = Some True\<rparr>],
      Responses_Sentiment =
        [\<lparr>rs_employeesID = ''emp1'', rs_form_id = ''1'', rs_form_question_id = 1,
          rs_answer_text = Some ''good'', rs_answer_choice = None\<rparr>,
         \<lparr>rs_employeesID = ''emp2'', rs_form_id = ''1'', rs_form_question_id = 1,
          rs_answer_text = None, rs_answer_choice = Some ''B''\<rparr>],
      FormQuestions_Sentiment =
        [\<lparr>fq_form_question_id = 1, fq_master_question_id = 1,
          fq_question_text = ''How are you?''\<rparr>],
      MasterQuestions_Sentiment = [\<lparr>mq_master_question_id = 1, mq_question_number = 1\<rparr>],
      responses_langchain_sentiment = [],
      company_reports_sentiment = []\<rparr>"

definition db_two :: db where
  "db_two =
     \<lparr>companies = [\<lparr>c_company_id = 1, c_company_name = ''Acme''\<rparr>,
                   \<lparr>c_company_id = 2, c_company_name = ''Globex''\<rparr>],
      employees =
        [\<lparr>e_employeesID = ''hrA'', e_name = Some ''Ann'', e_role = ''HR'',
          e_company_id = Some 1, e_is_filled = None\<rparr>,
         \<lparr>e_employeesID = ''empB'', e_name = Some ''Bo'', e_role = ''Employee'',
          e_company_id = Some 2, e_is_filled = Some True\<rparr>],
      Responses_Sentiment = [], FormQuestions_Sentiment = [], MasterQuestions_Sentiment = [],
      responses_langchain_sentiment = [],
      company_reports_sentiment = []\<rparr>"


text \<open>
  Example environments and requests: an analysis service that accepts everything, one
  that fails for employee \<open>emp1\<close>, a database that accepts every statement of a
  submission, one that rejects the second insert; a submission with two answers and one
  with an empty list of answers.
\<close>

definition env_ok :: orch_env where
  "env_ok = \<lparr>analyze = (\<lambda>p. None), analyze_company = (\<lambda>c. Inr ''saved''),
             select_employees_fails = False, employee_queries_fail = (\<lambda>e. False)\<rparr>"

definition env_flaky :: orch_env where
  "env_flaky =
     \<lparr>analyze = (\<lambda>p. if p_employeeId p = ''emp1'' then Some NoResponse else None),
      analyze_company = (\<lambda>c. Inr ''saved''),
      select_employees_fails = False, employee_queries_fail = (\<lambda>e. False)\<rparr>"

definition senv_ok :: submit_env where
  "senv_ok = \<lparr>has_employeesID_column = True, insert_fails = (\<lambda>i. False),
               update_filled_fails = False, auto_check_fails = False\<rparr>"

definition senv_second_rejected :: submit_env where
  "senv_second_rejected =
     \<lparr>has_employeesID_column = True, insert_fails = (\<lambda>i. i = 1),
      update_filled_fails = False, auto_check_fails = False\<rparr>"

definition req_two_answers :: submit_request where
  "req_two_answers =
     \<lparr>employee_id = None, employeeId = Some ''emp7'', form_id = Some ''1'', formId = None,
      answers = Some [\<lparr>a_form_question_id = 1, a_answer_text = Some ''fine'',
                        a_answer_choice = None\<rparr>,
                      \<lparr>a_form_question_id = 2, a_answer_text = None,
                        a_answer_choice = Some ''B''\<rparr>]\<rparr>"

definition req_no_answers :: submit_request where
  "req_no_answers =
     \<lparr>employee_id = None, employeeId = Some ''emp7'', form_id = Some ''1'', formId = None,
      answers = Some []\<rparr>"

section \<open>Completion detector and report gating\<close>

lemma length_filter_all: "(length (filter P xs) = length xs) = list_all P xs"
proof (induction xs)
  case Nil
  show ?case by simp
next
  case (Cons x xs)
  have "length (filter P xs) \<le> length xs" by (rule length_filter_le)
  then have "length (filter P xs) \<noteq> Suc (length xs)" by arith
  with Cons show ?case by auto
qed

lemma auto_trigger_ready_iff: "auto_trigger_ready d cid = isComplete d cid"
  by (auto simp: auto_trigger_ready_def isComplete_def total_of_def filled_of_def
      length_filter_all Let_def)

lemma get_company_report_served:
  assumes "fst (get_company_report d hrUser) = 200"
  shows "\<exists>hrRow. employee_row d (caller_employeesID hrUser) = Some hrRow \<and>
           isComplete d (e_company_id hrRow)"
  using assms
  by (auto simp: get_company_report_def isComplete_def total_of_def filled_of_def
      length_filter_all Let_def split: option.splits if_splits)

text \<open>
  C1. The completion check should report complete exactly when the company has at least
  one non-HR employee and all of them are filled, at every call site. The auto-trigger
  (\<open>auto_trigger_ready_iff\<close>) and the HR report endpoint (\<open>get_company_report_served\<close>)
  do so. The admin report endpoint tests only \<open>filled !== total\<close>: for the company of
  \<open>db_hr_only\<close>, which has no non-HR employee, the counts are 0 and 0, the company is not
  complete, the HR endpoint answers 404, and the admin endpoint passes its gate and
  answers 200.
\<close>

theorem admin_report_gate_zero_employees:
  "total_of db_hr_only (Some 1) = 0 \<and>
   isComplete db_hr_only (Some 1) = False \<and>
   auto_trigger_ready db_hr_only (Some 1) = False \<and>
   get_company_report db_hr_only \<lparr>caller_employeesID = ''hr1'', caller_role = ''HR''\<rparr>
     = (404, Msg ''No employees to report'') \<and>
   fst (admin_company_report db_hr_only (Numeric 1)) = 200"
  by (simp add: db_hr_only_def total_of_def filled_of_def non_hr_rows_def isComplete_def
      auto_trigger_ready_def get_company_report_def admin_company_report_def
      resolve_company_def employee_row_def company_name_of_def Let_def)

text \<open>
  C3. The company report should be refused whenever the company is not complete, even if
  a report row of an earlier cycle is stored. The admin endpoint serves the stored row
  of a company that has no non-HR employee: in \<open>db_stale\<close> company 2 is not complete and
  the old row is returned with status 200.
\<close>

theorem admin_report_serves_stale_row:
  "isComplete db_stale (Some 2) = False \<and>
   admin_company_report db_stale (Named ''Globex'') =
     (200, AdminReport \<lparr>cr_company_id = 2, cr_created_at = 7, cr_is_filled = Some True,
                        cr_summary = ''last year''\<rparr>)"
  by (simp add: db_stale_def total_of_def filled_of_def non_hr_rows_def isComplete_def
      admin_company_report_def resolve_company_def Let_def)

section \<open>Company-wide reset\<close>

lemma resolve_company_view:
  "resolve_company (conn_view (getConnection d)) p = resolve_company d p"
  by (simp add: conn_view_def getConnection_def)

lemma reset_commits:
  assumes "resolve_company d p = Some c"
    and "reset_selection d c onlyFilled \<noteq> []"
    and "\<not> reset_rejected fails p"
  shows "reset fails d p onlyFilled =
           ((200, reset_counts d c (map e_employeesID (reset_selection d c onlyFilled))),
            reset_effect d c (map e_employeesID (reset_selection d c onlyFilled)))"
  using assms
  by (simp add: reset_def reset_try_def reset_rejected_def reset_counts_def reset_effect_def
      conn_view_def getConnection_def beginTransaction_def conn_execute_def commit_def
      delete_responses_of_def delete_langchain_of_def delete_company_reports_def
      set_filled_def Let_def split: company_param.splits)

lemma reset_store_unchanged_on_throw:
  "reset_try fails p onlyFilled (getConnection d) = Inl c \<Longrightarrow> committed c = d"
  by (auto simp: reset_try_def conn_view_def getConnection_def beginTransaction_def
      conn_execute_def Let_def split: if_splits option.splits)

lemma reset_throws:
  assumes "resolve_company d p = Some c"
    and "reset_selection d c onlyFilled \<noteq> []"
    and "reset_rejected fails p"
  shows "\<exists>conn. reset_try fails p onlyFilled (getConnection d) = Inl conn"
  using assms
  by (auto simp: reset_try_def reset_rejected_def conn_view_def getConnection_def
      beginTransaction_def Let_def split: company_param.splits)

text \<open>
  C6, as amended. The reset selects the non-HR employees of the company (with
  \<open>onlyFilled\<close>, the filled ones among them). When that set is not empty the reset is
  all-or-nothing: if the database rejects any statement of the handler the answer is
  500 and the committed store is the one before the call; otherwise the answer is 200
  with the counts, and the store is \<open>reset_effect\<close>: the answers and individual reports
  stored under the identifiers of the selected employees and the company's report rows
  are gone, and the rows with those identifiers are no longer filled.
\<close>

theorem reset_all_or_nothing:
  assumes "resolve_company d p = Some c"
    and "ids = map e_employeesID (reset_selection d c onlyFilled)"
    and "ids \<noteq> []"
  shows "reset fails d p onlyFilled =
           (if reset_rejected fails p
            then ((500, Msg ''Server error resetting company data''), d)
            else ((200, reset_counts d c ids), reset_effect d c ids))"
proof (cases "reset_rejected fails p")
  case True
  from assms have sel: "reset_selection d c onlyFilled \<noteq> []" by auto
  from reset_throws [OF assms(1) sel True]
  obtain conn where t: "reset_try fails p onlyFilled (getConnection d) = Inl conn" by blast
  from reset_store_unchanged_on_throw [OF t] have "committed conn = d" .
  with t True show ?thesis by (simp add: reset_def rollback_def)
next
  case False
  from assms have sel: "reset_selection d c onlyFilled \<noteq> []" by auto
  from reset_commits [OF assms(1) sel False] False assms(2) show ?thesis by simp
qed

theorem reset_all_or_nothing_witness:
  "reset (\<lambda>s. s = UpdateFilled) db_mixed (Numeric 1) False =
     ((500, Msg ''Server error resetting company data''), db_mixed) \<and>
   reset (\<lambda>s. False) db_mixed (Numeric 1) False =
     ((200, ResetDone 1 1 1 1 1), reset_effect db_mixed 1 [''emp1''])"
proof -
  have r: "resolve_company db_mixed (Numeric 1) = Some 1"
    by (simp add: resolve_company_def)
  have s: "map e_employeesID (reset_selection db_mixed 1 False) = [''emp1'']"
    by (simp add: reset_selection_def db_mixed_def)
  have n: "[''emp1''] \<noteq> ([] :: string list)" by simp
  have c: "reset_counts db_mixed 1 [''emp1''] = ResetDone 1 1 1 1 1"
    by (simp add: reset_counts_def db_mixed_def)
  show ?thesis
    using reset_all_or_nothing [OF r s [symmetric] n, of "\<lambda>s. s = UpdateFilled"]
      reset_all_or_nothing [OF r s [symmetric] n, of "\<lambda>s. False"] c
    by (simp add: reset_rejected_def)
qed

text \<open>
  The claim as written speaks of all employees. The selection leaves out the HR users:
  in \<open>db_mixed\<close> the reset of company 1 succeeds and the HR user's answer and filled flag
  are still in place.
\<close>

theorem reset_spares_hr_rows:
  "fst (reset (\<lambda>s. False) db_mixed (Numeric 1) False) = (200, ResetDone 1 1 1 1 1) \<and>
   Responses_Sentiment (snd (reset (\<lambda>s. False) db_mixed (Numeric 1) False)) =
     [\<lparr>rs_employeesID = ''hr1'', rs_form_id = ''1'', rs_form_question_id = 1,
       rs_answer_text = Some ''fine'', rs_answer_choice = None\<rparr>] \<and>
   map e_is_filled (employees (snd (reset (\<lambda>s. False) db_mixed (Numeric 1) False))) =
     [Some True, Some False]"
  by (simp add: reset_def reset_try_def resolve_company_def reset_selection_def db_mixed_def
      conn_view_def getConnection_def beginTransaction_def conn_execute_def commit_def
      delete_responses_of_def delete_langchain_of_def delete_company_reports_def
      set_filled_def Let_def)

text \<open>
  C10. A reset with \<open>onlyFilled\<close> on a company where no non-HR employee is filled, or any
  reset on a company without non-HR employees, selects nobody: the transaction is rolled
  back, the store is unchanged (so a stored company report survives) and the answer is
  200 with zero counts. The statements up to the selection are assumed not to be
  rejected.
\<close>

theorem reset_nothing_selected:
  assumes "resolve_company d p = Some c"
    and "(onlyFilled \<and> filled_of d (Some c) = 0) \<or> total_of d (Some c) = 0"
    and "(case p of Numeric n \<Rightarrow> False | Named s \<Rightarrow> fails ResolveCompany) = False"
    and "fails BeginTransaction = False" and "fails SelectEmployees = False"
  shows "reset fails d p onlyFilled = ((200, NoEmployeesToReset 0 0 0), d)"
proof -
  have "reset_selection d c onlyFilled = []"
    using assms(2)
    by (auto simp: reset_selection_def filled_of_def total_of_def non_hr_rows_def
        filter_empty_conv)
  with assms(1,3,4,5) show ?thesis
    by (simp add: reset_def reset_try_def conn_view_def getConnection_def
        beginTransaction_def rollback_def Let_def)
qed

theorem reset_nothing_selected_witness:
  "reset (\<lambda>s. False) db_unfilled (Named ''Initech'') True =
     ((200, NoEmployeesToReset 0 0 0), db_unfilled) \<and>
   length (company_reports_sentiment db_unfilled) = 1"
proof -
  have r: "resolve_company db_unfilled (Named ''Initech'') = Some 3"
    by (simp add: resolve_company_def db_unfilled_def)
  have f: "(True \<and> filled_of db_unfilled (Some 3) = 0) \<or> total_of db_unfilled (Some 3) = 0"
    by (simp add: filled_of_def non_hr_rows_def db_unfilled_def)
  have l: "length (company_reports_sentiment db_unfilled) = 1"
    by (simp add: db_unfilled_def)
  show ?thesis
    using reset_nothing_selected [OF r f, of "\<lambda>s. False"] l by simp
qed

section \<open>Reset of one employee\<close>




lemma employee_row_deletes [simp]:
  "employee_row (delete_responses_of ids d) x = employee_row d x"
  "employee_row (delete_langchain_of ids d) x = employee_row d x"
  "employee_row (delete_company_reports c d) x = employee_row d x"
  by (simp_all add: employee_row_def delete_responses_of_def delete_langchain_of_def
      delete_company_reports_def)












section \<open>Analysis orchestrator: phases\<close>

lemma attempted_append: "attempted (xs @ ys) = attempted xs @ attempted ys"
  by (induction xs) (auto split: option.splits)

lemma attempted_individual: "attempted (individual_report env d e) = [e]"
  by (simp add: individual_report_def Let_def split: option.splits)

lemma attempted_phase1: "attempted (phase1 env d es) = es"
  by (induction es) (simp_all add: attempted_append attempted_individual)

lemma individual_no_calls:
  "ev \<in> set (individual_report env d e) \<Longrightarrow> \<not> is_company_call ev \<and> \<not> is_readiness_check ev"
  by (auto simp: individual_report_def Let_def split: option.splits if_splits)

lemma phase1_no_calls:
  "ev \<in> set (phase1 env d es) \<Longrightarrow> \<not> is_company_call ev \<and> \<not> is_readiness_check ev"
  by (induction es) (auto dest: individual_no_calls)

lemma individual_failure_logged:
  "employee_fails env d e \<Longrightarrow> EmployeeFailed e \<in> set (individual_report env d e)"
  by (auto simp: employee_fails_def individual_report_def Let_def split: option.splits)

lemma phase1_failure_logged:
  "e \<in> set es \<Longrightarrow> employee_fails env d e \<Longrightarrow> EmployeeFailed e \<in> set (phase1 env d es)"
  by (induction es) (auto dest: individual_failure_logged)

lemma requests_append: "requests (xs @ ys) = requests xs @ requests ys"
  by (induction xs rule: requests.induct) simp_all

lemma closing_append: "closing (xs @ ys) = closing xs @ closing ys"
  by (simp add: closing_def)

lemma closing_individual: "closing (individual_report env d e) = [outcome env d e]"
  by (simp add: closing_def individual_report_def outcome_def payload_of_def Let_def
      split: option.splits)

lemma requests_individual:
  "requests (individual_report env d e) = (if request_due env d e then [payload_of d e] else [])"
  by (simp add: individual_report_def request_due_def payload_of_def Let_def
      split: option.splits)

lemma closing_phase1: "closing (phase1 env d es) = map (outcome env d) es"
proof (induction es)
  case Nil
  show ?case by (simp add: closing_def)
next
  case (Cons e es)
  then show ?case by (simp add: closing_append closing_individual)
qed

lemma requests_phase1:
  "requests (phase1 env d es) = map (payload_of d) (filter (request_due env d) es)"
  by (induction es) (simp_all add: requests_append requests_individual)

text \<open>
  C8. Whatever fails for single employees, the per-employee phase works through every
  eligible employee, in order and once each: the closing log lines are exactly the
  outcomes of the eligible employees, each determined by that employee alone (a failure
  is logged as \<open>EmployeeFailed\<close> for that employee, a successful request as
  \<open>ReportGenerated\<close>), and the requests sent are exactly those of the eligible employees
  whose queries go through and who have answers. The company-level request is sent
  once, after the whole phase, and its answer is what the orchestrator returns. (The
  query that lists the eligible employees is assumed not to be rejected.)
\<close>

theorem phase1_continues_past_failures:
  assumes "select_employees_fails env = False"
  shows "\<exists>step1. fst (triggerCompanyAnalysis env d c) = step1 @ [CompanyCall c] \<and>
           closing step1 = map (outcome env d) (eligible_employees d c) \<and>
           requests step1 =
             map (payload_of d) (filter (request_due env d) (eligible_employees d c)) \<and>
           attempted step1 = eligible_employees d c \<and>
           list_all (\<lambda>ev. \<not> is_company_call ev \<and> \<not> is_readiness_check ev) step1 \<and>
           (\<forall>e\<in>set (eligible_employees d c).
              employee_fails env d e \<longrightarrow> EmployeeFailed e \<in> set step1) \<and>
           snd (triggerCompanyAnalysis env d c) = analyze_company env c"
proof -
  let ?step1 = "phase1 env d (eligible_employees d c)"
  have a: "fst (triggerCompanyAnalysis env d c) = ?step1 @ [CompanyCall c]"
    and b: "snd (triggerCompanyAnalysis env d c) = analyze_company env c"
    using assms by (simp_all add: triggerCompanyAnalysis_def Let_def)
  have c: "attempted ?step1 = eligible_employees d c" by (rule attempted_phase1)
  have d: "list_all (\<lambda>ev. \<not> is_company_call ev \<and> \<not> is_readiness_check ev) ?step1"
    using phase1_no_calls by (auto simp: list_all_iff)
  have e: "\<forall>e\<in>set (eligible_employees d c).
             employee_fails env d e \<longrightarrow> EmployeeFailed e \<in> set ?step1"
    using phase1_failure_logged by blast
  have f: "closing ?step1 = map (outcome env d) (eligible_employees d c)"
    by (rule closing_phase1)
  have g: "requests ?step1 =
             map (payload_of d) (filter (request_due env d) (eligible_employees d c))"
    by (rule requests_phase1)
  from a b c d e f g show ?thesis by blast
qed

theorem phase1_continues_past_failures_witness:
  "closing (butlast (fst (triggerCompanyAnalysis env_flaky db_team (Some 1)))) =
     [EmployeeFailed ''emp1'', ReportGenerated ''emp2'', NoResponsesFound ''emp3''] \<and>
   requests (butlast (fst (triggerCompanyAnalysis env_flaky db_team (Some 1)))) =
     [\<lparr>p_employeeId = ''emp1'', p_company = Some ''Acme'',
       p_answers = [(1, ''How are you?'', ''good'')]\<rparr>,
      \<lparr>p_employeeId = ''emp2'', p_company = Some ''Acme'',
       p_answers = [(1, ''How are you?'', ''B'')]\<rparr>] \<and>
   attempted (butlast (fst (triggerCompanyAnalysis env_flaky db_team (Some 1)))) =
     [''emp1'', ''emp2'', ''emp3''] \<and>
   EmployeeFailed ''emp1'' \<in> set (fst (triggerCompanyAnalysis env_flaky db_team (Some 1))) \<and>
   last (fst (triggerCompanyAnalysis env_flaky db_team (Some 1))) = CompanyCall (Some 1) \<and>
   snd (triggerCompanyAnalysis env_flaky db_team (Some 1)) = Inr ''saved''"
proof -
  have s: "select_employees_fails env_flaky = False" by (simp add: env_flaky_def)
  from phase1_continues_past_failures [OF s, of db_team "Some 1"]
  obtain step1 where
    l: "fst (triggerCompanyAnalysis env_flaky db_team (Some 1)) = step1 @ [CompanyCall (Some 1)]"
    and cl: "closing step1 = map (outcome env_flaky db_team) (eligible_employees db_team (Some 1))"
    and rq: "requests step1 =
               map (payload_of db_team)
                 (filter (request_due env_flaky db_team) (eligible_employees db_team (Some 1)))"
    and a: "attempted step1 = eligible_employees db_team (Some 1)"
    and f: "\<forall>e\<in>set (eligible_employees db_team (Some 1)).
              employee_fails env_flaky db_team e \<longrightarrow> EmployeeFailed e \<in> set step1"
    and r: "snd (triggerCompanyAnalysis env_flaky db_team (Some 1)) =
              analyze_company env_flaky (Some 1)"
    by blast
  have el: "eligible_employees db_team (Some 1) = [''emp1'', ''emp2'', ''emp3'']"
    by (simp add: eligible_employees_def db_team_def)
  have f1: "fetch_responses db_team ''emp1'' =
      [(1, ''How are you?'',
        \<lparr>rs_employeesID = ''emp1'', rs_form_id = ''1'', rs_form_question_id = 1,
          rs_answer_text = Some ''good'', rs_answer_choice = None\<rparr>)]"
    by (simp add: fetch_responses_def db_team_def)
  have f2: "fetch_responses db_team ''emp2'' =
      [(1, ''How are you?'',
        \<lparr>rs_employeesID = ''emp2'', rs_form_id = ''1'', rs_form_question_id = 1,
          rs_answer_text = None, rs_answer_choice = Some ''B''\<rparr>)]"
    by (simp add: fetch_responses_def db_team_def)
  have f3: "fetch_responses db_team ''emp3'' = []"
    by (simp add: fetch_responses_def db_team_def)
  have p1: "payload_of db_team ''emp1'' =
      \<lparr>p_employeeId = ''emp1'', p_company = Some ''Acme'',
       p_answers = [(1, ''How are you?'', ''good'')]\<rparr>"
    by (simp add: payload_of_def f1 format_answers_def js_or_def)
       (simp add: employee_row_def company_name_of_def db_team_def)
  have p2: "payload_of db_team ''emp2'' =
      \<lparr>p_employeeId = ''emp2'', p_company = Some ''Acme'',
       p_answers = [(1, ''How are you?'', ''B'')]\<rparr>"
    by (simp add: payload_of_def f2 format_answers_def js_or_def)
       (simp add: employee_row_def company_name_of_def db_team_def)
  have o1: "outcome env_flaky db_team ''emp1'' = EmployeeFailed ''emp1''"
    by (simp add: outcome_def f1 p1) (simp add: env_flaky_def)
  have o2: "outcome env_flaky db_team ''emp2'' = ReportGenerated ''emp2''"
    by (simp add: outcome_def f2 p2) (simp add: env_flaky_def)
  have o3: "outcome env_flaky db_team ''emp3'' = NoResponsesFound ''emp3''"
    by (simp add: outcome_def f3) (simp add: env_flaky_def)
  have d1: "request_due env_flaky db_team ''emp1''" "request_due env_flaky db_team ''emp2''"
    "\<not> request_due env_flaky db_team ''emp3''"
    by (simp_all add: request_due_def f1 f2 f3) (simp_all add: env_flaky_def)
  from cl have cl': "closing step1 =
      [EmployeeFailed ''emp1'', ReportGenerated ''emp2'', NoResponsesFound ''emp3'']"
    by (simp only: el list.map o1 o2 o3)
  from rq have rq': "requests step1 =
      [\<lparr>p_employeeId = ''emp1'', p_company = Some ''Acme'',
        p_answers = [(1, ''How are you?'', ''good'')]\<rparr>,
       \<lparr>p_employeeId = ''emp2'', p_company = Some ''Acme'',
        p_answers = [(1, ''How are you?'', ''B'')]\<rparr>]"
    by (simp only: el filter.simps d1 if_True if_False list.map p1 p2)
  have fr: "fetch_responses db_team ''emp1'' \<noteq> []" by (simp only: f1) simp
  have ef: "employee_fails env_flaky db_team ''emp1''"
    using fr by (simp add: employee_fails_def env_flaky_def)
  from f el ef have m: "EmployeeFailed ''emp1'' \<in> set step1" by simp
  from a el have a': "attempted step1 = [''emp1'', ''emp2'', ''emp3'']" by simp
  from l cl' rq' a' m r show ?thesis by (simp add: env_flaky_def)
qed

lemma company_analyze_trace:
  "snd (company_analyze env d hrUser) =
     (case employee_row d (caller_employeesID hrUser) of
        None \<Rightarrow> []
      | Some hrRow \<Rightarrow>
          if total_of d (e_company_id hrRow) = 0 \<or>
             filled_of d (e_company_id hrRow) \<noteq> total_of d (e_company_id hrRow)
          then [ReadinessCheck (e_company_id hrRow) (total_of d (e_company_id hrRow))
                  (filled_of d (e_company_id hrRow))]
          else ReadinessCheck (e_company_id hrRow) (total_of d (e_company_id hrRow))
                  (filled_of d (e_company_id hrRow)) #
               fst (triggerCompanyAnalysis env d (e_company_id hrRow)))"
  by (simp add: company_analyze_def Let_def
      split: option.splits prod.splits sum.splits analysis_error.splits)

lemma trigger_trace:
  "fst (triggerCompanyAnalysis env d c) =
     (if select_employees_fails env then []
      else phase1 env d (eligible_employees d c) @ [CompanyCall c])"
  by (simp add: triggerCompanyAnalysis_def Let_def)

lemma trigger_company_call:
  "CompanyCall c' \<in> set (fst (triggerCompanyAnalysis env d c)) \<Longrightarrow> c' = c"
  by (auto simp: trigger_trace split: if_splits dest: phase1_no_calls)

lemma trigger_no_checks:
  "list_all (\<lambda>ev. \<not> is_readiness_check ev) (fst (triggerCompanyAnalysis env d c))"
  by (auto simp: trigger_trace list_all_iff dest: phase1_no_calls)

lemma counts_complete:
  "0 < total_of d c \<Longrightarrow> filled_of d c = total_of d c \<Longrightarrow> isComplete d c"
  by (auto simp: isComplete_def total_of_def filled_of_def length_filter_all)

lemma company_analyze_gated:
  assumes "CompanyCall c \<in> set (snd (company_analyze env d hrUser))"
  shows "isComplete d c \<and>
         (\<exists>rest. snd (company_analyze env d hrUser) =
                    ReadinessCheck c (total_of d c) (filled_of d c) # rest \<and>
                  list_all (\<lambda>ev. \<not> is_readiness_check ev) rest)"
proof (cases "employee_row d (caller_employeesID hrUser)")
  case None
  with assms show ?thesis by (simp add: company_analyze_trace)
next
  case (Some hrRow)
  let ?c = "e_company_id hrRow"
  show ?thesis
  proof (cases "total_of d ?c = 0 \<or> filled_of d ?c \<noteq> total_of d ?c")
    case True
    with assms Some show ?thesis by (simp add: company_analyze_trace)
  next
    case False
    with Some have tr: "snd (company_analyze env d hrUser) =
        ReadinessCheck ?c (total_of d ?c) (filled_of d ?c) #
        fst (triggerCompanyAnalysis env d ?c)"
      by (simp add: company_analyze_trace)
    with assms have "CompanyCall c \<in> set (fst (triggerCompanyAnalysis env d ?c))" by simp
    then have eq: "c = ?c" by (rule trigger_company_call)
    from False have "isComplete d ?c" by (simp add: counts_complete)
    with tr eq trigger_no_checks show ?thesis by simp
  qed
qed

lemma auto_trigger_gated:
  assumes "CompanyCall c \<in> set (auto_trigger senv env d emp)"
  shows "isComplete d c \<and>
         (\<exists>rest. auto_trigger senv env d emp =
                    ReadinessCheck c (total_of d c) (filled_of d c) # rest \<and>
                  list_all (\<lambda>ev. \<not> is_readiness_check ev) rest)"
proof (cases "auto_check_fails senv")
  case True
  with assms show ?thesis by (simp add: auto_trigger_def)
next
  case nf: False
  show ?thesis
  proof (cases "employee_row d emp")
    case None
    with assms nf show ?thesis by (simp add: auto_trigger_def)
  next
    case (Some row)
    let ?c = "e_company_id row"
    show ?thesis
    proof (cases "0 < total_of d ?c \<and> filled_of d ?c = total_of d ?c")
      case False
      with assms nf Some show ?thesis by (auto simp: auto_trigger_def Let_def)
    next
      case True
      with nf Some have tr: "auto_trigger senv env d emp =
          ReadinessCheck ?c (total_of d ?c) (filled_of d ?c) #
          fst (triggerCompanyAnalysis env d ?c)"
        by (simp add: auto_trigger_def Let_def)
      with assms have "CompanyCall c \<in> set (fst (triggerCompanyAnalysis env d ?c))" by simp
      then have eq: "c = ?c" by (rule trigger_company_call)
      from True have "isComplete d ?c" by (simp add: counts_complete)
      with tr eq trigger_no_checks show ?thesis by simp
    qed
  qed
qed

lemma analyze_trace_mixed:
  "snd (company_analyze env_ok db_mixed \<lparr>caller_employeesID = ''hr1'', caller_role = ''HR''\<rparr>) =
     [ReadinessCheck (Some 1) 1 1,
      IndividualCall \<lparr>p_employeeId = ''emp1'', p_company = Some ''Acme'',
                      p_answers = [(1, ''How are you?'', ''good'')]\<rparr>,
      ReportGenerated ''emp1'',
      CompanyCall (Some 1)]"
proof -
  have fr: "fetch_responses db_mixed ''emp1'' =
      [(1, ''How are you?'',
        \<lparr>rs_employeesID = ''emp1'', rs_form_id = ''1'', rs_form_question_id = 1,
          rs_answer_text = Some ''good'', rs_answer_choice = None\<rparr>)]"
    by (simp add: fetch_responses_def db_mixed_def)
  have el: "eligible_employees db_mixed (Some 1) = [''emp1'']"
    by (simp add: eligible_employees_def db_mixed_def)
  have cn: "employee_row db_mixed ''emp1'' =
      Some \<lparr>e_employeesID = ''emp1'', e_name = Some ''Eli'', e_role = ''Employee'',
            e_company_id = Some 1, e_is_filled = Some True\<rparr>"
    by (simp add: employee_row_def db_mixed_def)
  have nm: "company_name_of db_mixed (Some (Suc 0)) = Some ''Acme''"
    by (simp add: company_name_of_def db_mixed_def)
  have ir: "individual_report env_ok db_mixed ''emp1'' =
      [IndividualCall \<lparr>p_employeeId = ''emp1'', p_company = Some ''Acme'',
                       p_answers = [(1, ''How are you?'', ''good'')]\<rparr>,
       ReportGenerated ''emp1'']"
    by (simp add: individual_report_def fr cn nm format_answers_def js_or_def env_ok_def Let_def)
  have hr: "employee_row db_mixed ''hr1'' =
      Some \<lparr>e_employeesID = ''hr1'', e_name = Some ''Hana'', e_role = ''HR'',
            e_company_id = Some 1, e_is_filled = Some True\<rparr>"
    by (simp add: employee_row_def db_mixed_def)
  have t: "total_of db_mixed (Some 1) = 1" "filled_of db_mixed (Some 1) = 1"
    by (simp_all add: total_of_def filled_of_def non_hr_rows_def db_mixed_def)
  have tr: "fst (triggerCompanyAnalysis env_ok db_mixed (Some 1)) =
      [IndividualCall \<lparr>p_employeeId = ''emp1'', p_company = Some ''Acme'',
                       p_answers = [(1, ''How are you?'', ''good'')]\<rparr>,
       ReportGenerated ''emp1'', CompanyCall (Some 1)]"
    by (simp only: trigger_trace el ir phase1.simps) (simp add: env_ok_def)
  show ?thesis
    by (simp add: company_analyze_trace hr t tr del: One_nat_def)
qed

text \<open>
  C5, as amended. Completeness is checked once, by the caller, before the per-employee
  phase: if a trace of the analyze endpoint or of the auto-trigger contains the
  company-level request for company \<open>c\<close>, then the store the caller read was complete for
  \<open>c\<close>, the trace starts with that readiness check, and no further readiness check
  follows; \<open>triggerCompanyAnalysis\<close> itself makes none.
\<close>

theorem phase2_gated_before_phase1:
  "(CompanyCall c \<in> set (snd (company_analyze env d hrUser)) \<longrightarrow>
      isComplete d c \<and>
      (\<exists>rest. snd (company_analyze env d hrUser) =
                 ReadinessCheck c (total_of d c) (filled_of d c) # rest \<and>
               list_all (\<lambda>ev. \<not> is_readiness_check ev) rest)) \<and>
   (CompanyCall c \<in> set (auto_trigger senv env d emp) \<longrightarrow>
      isComplete d c \<and>
      (\<exists>rest. auto_trigger senv env d emp =
                 ReadinessCheck c (total_of d c) (filled_of d c) # rest \<and>
               list_all (\<lambda>ev. \<not> is_readiness_check ev) rest))"
  using company_analyze_gated auto_trigger_gated by blast

theorem phase2_gated_before_phase1_witness:
  "isComplete db_mixed (Some 1) \<and>
   hd (snd (company_analyze env_ok db_mixed \<lparr>caller_employeesID = ''hr1'', caller_role = ''HR''\<rparr>))
     = ReadinessCheck (Some 1) 1 1 \<and>
   list_all (\<lambda>ev. \<not> is_readiness_check ev)
     (tl (snd (company_analyze env_ok db_mixed
                 \<lparr>caller_employeesID = ''hr1'', caller_role = ''HR''\<rparr>)))"
proof -
  let ?hr = "\<lparr>caller_employeesID = ''hr1'', caller_role = ''HR''\<rparr>"
  have m: "CompanyCall (Some 1) \<in> set (snd (company_analyze env_ok db_mixed ?hr))"
    by (simp add: analyze_trace_mixed)
  from phase2_gated_before_phase1 [of "Some 1" env_ok db_mixed ?hr senv_ok "''emp1''"] m
  have c: "isComplete db_mixed (Some 1)"
    and "\<exists>rest. snd (company_analyze env_ok db_mixed ?hr) =
                 ReadinessCheck (Some 1) (total_of db_mixed (Some 1))
                   (filled_of db_mixed (Some 1)) # rest \<and>
               list_all (\<lambda>ev. \<not> is_readiness_check ev) rest"
    by blast+
  then obtain rest where
    "snd (company_analyze env_ok db_mixed ?hr) =
       ReadinessCheck (Some 1) (total_of db_mixed (Some 1)) (filled_of db_mixed (Some 1)) # rest"
    and "list_all (\<lambda>ev. \<not> is_readiness_check ev) rest"
    by blast
  with c analyze_trace_mixed show ?thesis by simp
qed

text \<open>
  The claim as written asks for a re-check right before the company-level request. In
  the trace of the analyze endpoint on \<open>db_mixed\<close> the per-employee work lies between the
  only readiness check and the company-level request.
\<close>

theorem phase2_not_rechecked:
  "rechecked_before_phase2 None
     (snd (company_analyze env_ok db_mixed \<lparr>caller_employeesID = ''hr1'', caller_role = ''HR''\<rparr>))
     = False \<and>
   snd (company_analyze env_ok db_mixed \<lparr>caller_employeesID = ''hr1'', caller_role = ''HR''\<rparr>) =
     [ReadinessCheck (Some 1) 1 1,
      IndividualCall \<lparr>p_employeeId = ''emp1'', p_company = Some ''Acme'',
                      p_answers = [(1, ''How are you?'', ''good'')]\<rparr>,
      ReportGenerated ''emp1'',
      CompanyCall (Some 1)]"
  by (simp add: analyze_trace_mixed)

section \<open>Survey submission\<close>

lemma await_inserts_Some:
  "i < length rows \<Longrightarrow> rejects (k + i) \<Longrightarrow> \<exists>j. await_inserts rejects k rows = Some j"
proof (induction rows arbitrary: k i)
  case Nil
  then show ?case by simp
next
  case (Cons r rows)
  show ?case
  proof (cases i)
    case 0
    with Cons.prems show ?thesis by simp
  next
    case (Suc i')
    with Cons.prems have "i' < length rows" "rejects (Suc k + i')" by simp_all
    from Cons.IH [OF this] show ?thesis by auto
  qed
qed

lemma insertPromises_mem:
  "j < length rows \<Longrightarrow> \<not> rejects (k + j) \<Longrightarrow> rows ! j \<in> set (insertPromises rejects k rows)"
proof (induction rows arbitrary: k j)
  case Nil
  then show ?case by simp
next
  case (Cons r rows)
  show ?case
  proof (cases j)
    case 0
    with Cons.prems show ?thesis by simp
  next
    case (Suc j')
    with Cons.prems have "j' < length rows" "\<not> rejects (Suc k + j')" by simp_all
    from Cons.IH [OF this] Suc show ?thesis by simp
  qed
qed

lemma submit_rejected_row:
  assumes "js_or (employee_id req) (employeeId req) = Some emp" and "emp \<noteq> []"
    and "js_or (form_id req) (formId req) = Some form" and "form \<noteq> []"
    and "answers req = Some ans" and "has_employeesID_column senv"
    and "await_inserts (insert_fails senv) 0 (map (response_of emp form) ans) = Some j"
  shows "submit senv oenv d req =
           ((500, RowFailed j),
            d\<lparr>Responses_Sentiment := Responses_Sentiment d @
                 insertPromises (insert_fails senv) 0 (map (response_of emp form) ans)\<rparr>,
            [])"
  using assms by (simp add: submit_def Let_def)

lemma await_inserts_first:
  "await_inserts rejects k rows = Some j \<Longrightarrow>
     k \<le> j \<and> j < k + length rows \<and> rejects j \<and> (\<forall>m. k \<le> m \<and> m < j \<longrightarrow> \<not> rejects m)"
proof (induction rows arbitrary: k)
  case Nil
  then show ?case by simp
next
  case (Cons r rows)
  show ?case
  proof (cases "rejects k")
    case True
    with Cons.prems show ?thesis by auto
  next
    case False
    with Cons.prems have "await_inserts rejects (Suc k) rows = Some j" by simp
    from Cons.IH [OF this]
    have h: "Suc k \<le> j" "j < Suc k + length rows" "rejects j"
      "\<forall>m. Suc k \<le> m \<and> m < j \<longrightarrow> \<not> rejects m" by simp_all
    have "\<forall>m. k \<le> m \<and> m < j \<longrightarrow> \<not> rejects m"
    proof (intro allI impI)
      fix m assume m: "k \<le> m \<and> m < j"
      show "\<not> rejects m"
      proof (cases "m = k")
        case True
        with False show ?thesis by simp
      next
        case False
        with m have "Suc k \<le> m \<and> m < j" by arith
        with h(4) show ?thesis by blast
      qed
    qed
    with h show ?thesis by simp
  qed
qed

text \<open>
  C2, as amended. For a submission with valid identifiers, if the insert of any answer
  row is rejected then the submission fails with status 500 naming the first rejected
  row, the employee is not marked filled and no analysis is started; but nothing is
  rolled back: the rows stored before the submission and the rows of the submission
  that precede the first rejected row are stored afterwards.
\<close>

theorem submit_failure_keeps_inserted_rows:
  assumes e: "js_or (employee_id req) (employeeId req) = Some emp" and e0: "emp \<noteq> []"
    and f: "js_or (form_id req) (formId req) = Some form" and f0: "form \<noteq> []"
    and a: "answers req = Some ans" and col: "has_employeesID_column senv"
    and i: "i < length ans" and rej: "insert_fails senv i"
  shows "\<exists>j. j \<le> i \<and> insert_fails senv j \<and> (\<forall>k<j. \<not> insert_fails senv k) \<and>
           fst (submit senv oenv d req) = (500, RowFailed j) \<and>
           employees (fst (snd (submit senv oenv d req))) = employees d \<and>
           snd (snd (submit senv oenv d req)) = [] \<and>
           (\<forall>r\<in>set (Responses_Sentiment d).
              r \<in> set (Responses_Sentiment (fst (snd (submit senv oenv d req))))) \<and>
           (\<forall>k<j. response_of emp form (ans ! k) \<in>
              set (Responses_Sentiment (fst (snd (submit senv oenv d req)))))"
proof -
  let ?rows = "map (response_of emp form) ans"
  from i rej have "\<exists>j. await_inserts (insert_fails senv) 0 ?rows = Some j"
    using await_inserts_Some [of i ?rows "insert_fails senv" 0] by simp
  then obtain j where j: "await_inserts (insert_fails senv) 0 ?rows = Some j" ..
  from await_inserts_first [OF j]
  have jr: "insert_fails senv j" and jl: "j < length ans"
    and jm: "\<forall>k<j. \<not> insert_fails senv k" by simp_all
  have ji: "j \<le> i"
  proof (rule ccontr)
    assume "\<not> j \<le> i"
    then have "i < j" by simp
    with jm rej show False by blast
  qed
  note s = submit_rejected_row [OF e e0 f f0 a col j, of oenv d]
  have before: "\<forall>k<j. response_of emp form (ans ! k) \<in>
                  set (insertPromises (insert_fails senv) 0 ?rows)"
  proof (intro allI impI)
    fix k assume k: "k < j"
    with jl have kl: "k < length ans" by simp
    from k jm have ok: "\<not> insert_fails senv k" by blast
    from insertPromises_mem [of k ?rows "insert_fails senv" 0] kl ok
    show "response_of emp form (ans ! k) \<in> set (insertPromises (insert_fails senv) 0 ?rows)"
      by simp
  qed
  have "fst (submit senv oenv d req) = (500, RowFailed j) \<and>
        employees (fst (snd (submit senv oenv d req))) = employees d \<and>
        snd (snd (submit senv oenv d req)) = [] \<and>
        (\<forall>r\<in>set (Responses_Sentiment d).
           r \<in> set (Responses_Sentiment (fst (snd (submit senv oenv d req))))) \<and>
        (\<forall>k<j. response_of emp form (ans ! k) \<in>
           set (Responses_Sentiment (fst (snd (submit senv oenv d req)))))"
    using s before by simp
  with ji jr jm show ?thesis by blast
qed

theorem submit_failure_keeps_inserted_rows_witness:
  "fst (submit senv_second_rejected env_ok db_unfilled req_two_answers) = (500, RowFailed 1) \<and>
   \<lparr>rs_employeesID = ''emp7'', rs_form_id = ''1'', rs_form_question_id = 1,
     rs_answer_text = Some ''fine'', rs_answer_choice = None\<rparr>
     \<in> set (Responses_Sentiment
              (fst (snd (submit senv_second_rejected env_ok db_unfilled req_two_answers))))"
proof -
  let ?ans = "[\<lparr>a_form_question_id = 1, a_answer_text = Some ''fine'', a_answer_choice = None\<rparr>,
               \<lparr>a_form_question_id = 2, a_answer_text = None, a_answer_choice = Some ''B''\<rparr>]"
  let ?s = "submit senv_second_rejected env_ok db_unfilled req_two_answers"
  have e: "js_or (employee_id req_two_answers) (employeeId req_two_answers) = Some ''emp7''"
    by (simp add: js_or_def req_two_answers_def)
  have f: "js_or (form_id req_two_answers) (formId req_two_answers) = Some ''1''"
    by (simp add: js_or_def req_two_answers_def)
  have a: "answers req_two_answers = Some ?ans" by (simp add: req_two_answers_def)
  have col: "has_employeesID_column senv_second_rejected"
    by (simp add: senv_second_rejected_def)
  have i: "(1::nat) < length ?ans" by simp
  have rej: "insert_fails senv_second_rejected 1" by (simp add: senv_second_rejected_def)
  have e0: "''emp7'' \<noteq> []" and f0: "''1'' \<noteq> []" by simp_all
  from submit_failure_keeps_inserted_rows [OF e e0 f f0 a col i rej, of env_ok db_unfilled]
  obtain j where j: "j \<le> 1" "insert_fails senv_second_rejected j"
    and r: "fst ?s = (500, RowFailed j)"
    and b: "\<forall>k<j. response_of ''emp7'' ''1'' (?ans ! k) \<in> set (Responses_Sentiment (fst (snd ?s)))"
    by blast
  from j have j1: "j = 1" by (simp add: senv_second_rejected_def)
  from b j1 have "response_of ''emp7'' ''1'' (?ans ! 0) \<in> set (Responses_Sentiment (fst (snd ?s)))"
    by simp
  with r j1 show ?thesis by (simp add: response_of_def null_if_falsy_def)
qed

text \<open>
  The claim as written promises all-or-nothing. With two answers of which the database
  rejects the second, the answer is 500 for row 1 and the first row stays in a table
  that was empty before.
\<close>

theorem submit_leaves_partial_rows:
  "submit senv_second_rejected env_ok db_unfilled req_two_answers =
     ((500, RowFailed 1),
      db_unfilled\<lparr>Responses_Sentiment :=
        [\<lparr>rs_employeesID = ''emp7'', rs_form_id = ''1'', rs_form_question_id = 1,
          rs_answer_text = Some ''fine'', rs_answer_choice = None\<rparr>]\<rparr>,
      []) \<and>
   Responses_Sentiment db_unfilled = []"
  by (simp add: submit_def js_or_def req_two_answers_def senv_second_rejected_def
      response_of_def null_if_falsy_def db_unfilled_def Let_def)

text \<open>
  C9. A submission with an empty list of answers, an employee identifier and a form id
  (the identifier need not belong to an employee) is answered 200: no answer row is
  inserted, no input error is raised, and the update that sets \<open>is_filled\<close> for that
  identifier is still issued, so that an existing employee becomes filled without any
  stored answer.
\<close>

theorem submit_empty_answers:
  assumes e: "js_or (employee_id req) (employeeId req) = Some emp" and e0: "emp \<noteq> []"
    and f: "js_or (form_id req) (formId req) = Some form" and f0: "form \<noteq> []"
    and a: "answers req = Some []" and col: "has_employeesID_column senv"
  shows "fst (submit senv oenv d req) = (200, Saved) \<and>
         Responses_Sentiment (fst (snd (submit senv oenv d req))) = Responses_Sentiment d \<and>
         fst (snd (submit senv oenv d req)) =
           (if update_filled_fails senv then d else set_filled True [emp] d)"
  using assms by (simp add: submit_def Let_def set_filled_def)

theorem submit_empty_answers_witness:
  "fst (submit senv_ok env_ok db_unfilled req_no_answers) = (200, Saved) \<and>
   Responses_Sentiment (fst (snd (submit senv_ok env_ok db_unfilled req_no_answers))) = [] \<and>
   map e_is_filled (employees (fst (snd (submit senv_ok env_ok db_unfilled req_no_answers))))
     = [Some True]"
proof -
  have e: "js_or (employee_id req_no_answers) (employeeId req_no_answers) = Some ''emp7''"
    by (simp add: js_or_def req_no_answers_def)
  have f: "js_or (form_id req_no_answers) (formId req_no_answers) = Some ''1''"
    by (simp add: js_or_def req_no_answers_def)
  have a: "answers req_no_answers = Some []" by (simp add: req_no_answers_def)
  have col: "has_employeesID_column senv_ok" by (simp add: senv_ok_def)
  from submit_empty_answers [OF e _ f _ a col, of env_ok db_unfilled]
  show ?thesis by (simp add: senv_ok_def set_filled_def db_unfilled_def)
qed

section \<open>Access guard\<close>

text \<open>
  C4, as amended. For a caller with role HR or Admin whose own row exists: the
  per-employee report endpoint answers 403 when the target employee exists and belongs
  to another company than the caller (Admin is not exempt), and 404 when the target
  does not exist; the status endpoint compares no companies and tells such a caller
  whether any existing employee is filled.
\<close>

theorem hr_cross_company_access:
  assumes auth: "authenticateHR c"
    and hr: "employee_row d (caller_employeesID c) = Some hrRow"
  shows "(\<forall>emp. employee_row d target = Some emp \<and> e_company_id emp \<noteq> e_company_id hrRow \<longrightarrow>
            reports_sentiment_route d c target =
              (403, Msg ''Access denied: Employee not in your company'')) \<and>
         (employee_row d target = None \<longrightarrow>
            reports_sentiment_route d c target = (404, Msg ''Employee not found'')) \<and>
         (js_trim target \<noteq> [] \<longrightarrow>
            get_employee_status d c target =
              (case employee_row d (js_trim target) of
                 None \<Rightarrow> (404, Msg ''Employee not found'')
               | Some row \<Rightarrow> (200, IsFilled (coalesce_filled (e_is_filled row)))))"
proof -
  have t: "js_trim ''HR'' = ''HR''" "js_trim ''Admin'' = ''Admin''"
    by (simp_all add: js_trim_def is_space_def)
  from auth have r: "js_trim (caller_role c) = ''HR'' \<or> js_trim (caller_role c) = ''Admin''"
    by (auto simp: authenticateHR_def t)
  have s: "js_trim target \<noteq> [] \<longrightarrow>
            get_employee_status d c target =
              (case employee_row d (js_trim target) of
                 None \<Rightarrow> (404, Msg ''Employee not found'')
               | Some row \<Rightarrow> (200, IsFilled (coalesce_filled (e_is_filled row))))"
    using r by (auto simp: get_employee_status_def Let_def)
  from auth hr s show ?thesis
    by (simp add: reports_sentiment_route_def get_sentiment_report_def Let_def)
qed

theorem hr_cross_company_access_witness:
  "reports_sentiment_route db_two \<lparr>caller_employeesID = ''hrA'', caller_role = ''HR''\<rparr> ''empB'' =
     (403, Msg ''Access denied: Employee not in your company'') \<and>
   reports_sentiment_route db_two \<lparr>caller_employeesID = ''hrA'', caller_role = ''HR''\<rparr> ''nobody'' =
     (404, Msg ''Employee not found'') \<and>
   get_employee_status db_two \<lparr>caller_employeesID = ''hrA'', caller_role = ''HR''\<rparr> ''empB'' =
     (200, IsFilled True)"
proof -
  let ?c = "\<lparr>caller_employeesID = ''hrA'', caller_role = ''HR''\<rparr>"
  have auth: "authenticateHR ?c" by (simp add: authenticateHR_def)
  have hr: "employee_row db_two (caller_employeesID ?c) =
      Some \<lparr>e_employeesID = ''hrA'', e_name = Some ''Ann'', e_role = ''HR'',
            e_company_id = Some 1, e_is_filled = None\<rparr>"
    by (simp add: employee_row_def db_two_def)
  have b: "employee_row db_two ''empB'' =
      Some \<lparr>e_employeesID = ''empB'', e_name = Some ''Bo'', e_role = ''Employee'',
            e_company_id = Some 2, e_is_filled = Some True\<rparr>"
    by (simp add: employee_row_def db_two_def)
  have n: "employee_row db_two ''nobody'' = None"
    by (simp add: employee_row_def db_two_def)
  have t: "js_trim ''empB'' = ''empB''" by (simp add: js_trim_def is_space_def)
  from hr_cross_company_access [OF auth hr, of "''empB''"]
       hr_cross_company_access [OF auth hr, of "''nobody''"] b n t
  show ?thesis by simp
qed

text \<open>
  The claim as written has every cross-company request of an HR user rejected as
  forbidden, whether or not the target exists. In \<open>db_two\<close> the HR user of company 1 reads
  the status of an employee of company 2, and a request for a report of an unknown
  employee is answered 404.
\<close>

theorem hr_reads_other_company_status:
  "get_employee_status db_two \<lparr>caller_employeesID = ''hrA'', caller_role = ''HR''\<rparr> ''empB'' =
     (200, IsFilled True) \<and>
   reports_sentiment_route db_two \<lparr>caller_employeesID = ''hrA'', caller_role = ''HR''\<rparr> ''nobody'' =
     (404, Msg ''Employee not found'')"
  by (simp add: get_employee_status_def reports_sentiment_route_def get_sentiment_report_def
      authenticateHR_def employee_row_def js_trim_def is_space_def db_two_def Let_def)

end
